theory Spec2Isabelle
  imports Complex_Main
begin

section \<open>The TypeScript SDK of the RLM runtime (npm-package/src/index.ts)\<close>

subsection \<open>Execution profiles\<close>

text \<open>
  \<^verbatim>\<open>type ExecutionProfile = 'quick' | 'default' | 'analysis' | 'extended'\<close>.
  The literal \<^verbatim>\<open>'default'\<close> is written \<open>default_profile\<close>, since \<open>default\<close> is a
  constant of HOL.
\<close>

datatype ExecutionProfile = quick | default_profile | analysis | extended

record ProfileConfig =
  timeout :: nat
  memory :: string
  description :: string

fun EXECUTION_PROFILES :: "ExecutionProfile \<Rightarrow> ProfileConfig" where
  "EXECUTION_PROFILES quick =
     \<lparr>timeout = 5, memory = ''128m'',
      description = ''Fast operations: simple math, string manipulation''\<rparr>"
| "EXECUTION_PROFILES default_profile =
     \<lparr>timeout = 30, memory = ''512m'',
      description = ''Standard operations: data processing, algorithms''\<rparr>"
| "EXECUTION_PROFILES analysis =
     \<lparr>timeout = 120, memory = ''2g'',
      description = ''Heavy computation: large datasets, complex algorithms''\<rparr>"
| "EXECUTION_PROFILES extended =
     \<lparr>timeout = 300, memory = ''4g'',
      description = ''Long-running tasks: batch processing, extensive analysis''\<rparr>"

definition getProfile :: "ExecutionProfile \<Rightarrow> ProfileConfig" where
  "getProfile name = EXECUTION_PROFILES name"

subsection \<open>Trust levels\<close>

text \<open>
  \<^verbatim>\<open>type TrustLevel = 'sandboxed' | 'docker' | 'local'\<close>: a union of string literal
  types, that is, the set of these three strings.
\<close>

definition TrustLevel :: "string set" where
  "TrustLevel = {''sandboxed'', ''docker'', ''local''}"

subsection \<open>Tool parameters\<close>

text \<open>
  An optional property \<^verbatim>\<open>x?: T\<close> is an \<open>option\<close>. The property \<^verbatim>\<open>value\<close> of
  \<^verbatim>\<open>SetREPLContextParams\<close> is written \<open>value_json\<close>.
\<close>

record ExecutePythonParams =
  code :: string
  timeout :: "nat option"
  profile :: "ExecutionProfile option"
  session_id :: "string option"

record GetREPLContextParams =
  session_id :: "string option"

record SetREPLContextParams =
  key :: string
  value_json :: string
  session_id :: "string option"

record ClearREPLContextParams =
  session_id :: "string option"

record DestroySessionParams =
  session_id :: string

subsection \<open>Result types\<close>

text \<open>The property \<^verbatim>\<open>output\<close> of \<^verbatim>\<open>REPLResult\<close> is written \<open>output_text\<close>.\<close>

record REPLResult =
  output_text :: string
  error :: "string option"
  execution_time_ms :: nat
  truncated :: bool
  memory_peak_bytes :: "nat option"
  cpu_time_ms :: "nat option"
  success :: bool

text \<open>The cost in USD is counted in a smallest unit, as a natural number.\<close>

record AgentResult =
  answer :: string
  answer_source :: string
  iterations :: nat
  total_tokens :: nat
  total_cost :: nat
  duration_ms :: nat
  forced_termination :: bool
  run_id :: string
  success :: bool

subsection \<open>Configuration\<close>

record RLMConfig =
  backend :: string
  model :: string
  temperature :: real
  trust_level :: string
  token_budget :: nat
  max_depth :: nat
  timeout_seconds :: nat
  memory_enabled :: bool

definition DEFAULT_CONFIG :: RLMConfig where
  "DEFAULT_CONFIG =
     \<lparr>backend = ''litellm'', model = ''gpt-4o-mini'', temperature = 0,
      trust_level = ''sandboxed'', token_budget = 50000, max_depth = 6,
      timeout_seconds = 300, memory_enabled = False\<rparr>"

subsection \<open>Allowed and blocked imports\<close>

definition ALLOWED_IMPORTS :: "string list" where
  "ALLOWED_IMPORTS =
    [''json'', ''re'', ''math'', ''datetime'', ''time'', ''uuid'',
     ''hashlib'', ''base64'', ''string'', ''textwrap'',
     ''collections'', ''itertools'', ''functools'', ''operator'',
     ''dataclasses'', ''typing'', ''enum'', ''copy'',
     ''csv'', ''statistics'', ''decimal'', ''fractions'',
     ''pathlib'', ''posixpath'', ''ntpath'',
     ''urllib.parse'',
     ''difflib'', ''unicodedata'']"

definition BLOCKED_IMPORTS :: "string list" where
  "BLOCKED_IMPORTS =
    [''os'', ''sys'', ''subprocess'', ''shutil'', ''platform'', ''signal'', ''resource'',
     ''socket'', ''ssl'', ''requests'', ''urllib.request'', ''http'',
     ''pickle'', ''shelve'', ''marshal'',
     ''sqlite3'',
     ''ctypes'', ''cffi'', ''mmap'',
     ''multiprocessing'', ''threading'', ''concurrent'', ''asyncio'',
     ''importlib'', ''builtins'', ''eval'', ''exec'', ''compile'', ''code'',
     ''tempfile'', ''fileinput'', ''glob'', ''fnmatch'',
     ''pdb'', ''bdb'', ''trace'', ''traceback'', ''inspect'', ''dis'', ''ast'',
     ''atexit'', ''gc'']"

text \<open>
  \<^verbatim>\<open>String.prototype.split('.')\<close>: the string is cut at every full stop; the result
  always has at least one part (the empty string gives one empty part).
\<close>

function split_dot :: "string \<Rightarrow> string list" where
  "split_dot s =
     (case dropWhile (\<lambda>c. c \<noteq> CHR ''.'') s of
        [] \<Rightarrow> [s]
      | _ # rest \<Rightarrow> takeWhile (\<lambda>c. c \<noteq> CHR ''.'') s # split_dot rest)"
  by pat_completeness auto
termination
proof (relation "measure length")
  fix s :: string and x rest
  assume "dropWhile (\<lambda>c. c \<noteq> CHR ''.'') s = x # rest"
  then have "Suc (length rest) = length (dropWhile (\<lambda>c. c \<noteq> CHR ''.'') s)"
    by simp
  also have "\<dots> \<le> length s"
    by (rule length_dropWhile_le)
  finally show "(rest, s) \<in> measure length"
    by simp
qed simp

text \<open>\<^verbatim>\<open>Array.prototype.join('.')\<close>: the parts with a full stop between neighbours.\<close>

fun join_dot :: "string list \<Rightarrow> string" where
  "join_dot [] = []"
| "join_dot [p] = p"
| "join_dot (p # q # ps) = p @ CHR ''.'' # join_dot (q # ps)"

text \<open>
  The loop \<^verbatim>\<open>for (let i = 0; i < parts.length; i++)\<close> of \<^verbatim>\<open>isImportAllowed\<close>, from
  index \<open>i\<close> on; \<^verbatim>\<open>parts.slice(0, i + 1)\<close> is \<open>take (i + 1) parts\<close>.
\<close>

function isImportAllowed_loop :: "string list \<Rightarrow> nat \<Rightarrow> bool" where
  "isImportAllowed_loop parts i =
     (if i < length parts then
        (let parent = join_dot (take (i + 1) parts) in
         if parent \<in> set BLOCKED_IMPORTS then False
         else if parent \<in> set ALLOWED_IMPORTS then True
         else isImportAllowed_loop parts (i + 1))
      else False)"
  by pat_completeness auto
termination
  by (relation "measure (\<lambda>(parts, i). length parts - i)") auto

definition isImportAllowed :: "string \<Rightarrow> bool" where
  "isImportAllowed moduleName =
     (if moduleName \<in> set BLOCKED_IMPORTS then False
      else if moduleName \<in> set ALLOWED_IMPORTS then True
      else isImportAllowed_loop (split_dot moduleName) 0)"

text \<open>
  The parents the loop of \<^verbatim>\<open>isImportAllowed\<close> computes, in the order of the loop:
  \<^verbatim>\<open>parts.slice(0, i + 1).join('.')\<close> for every index \<open>i\<close>.
\<close>

definition walked :: "string list \<Rightarrow> string list" where
  "walked parts = map (\<lambda>i. join_dot (take (i + 1) parts)) [0..<length parts]"

section \<open>The reference algorithm of the import check, from the specification\<close>

text \<open>
  The specification describes the check as a set-membership test against the two name
  sets plus a parent-prefix walk. The definitions below follow these words and not the
  code: the dotted prefixes are read off the characters of the name, without splitting
  and joining.
\<close>

text \<open>
  The dotted prefixes of a name, from the shortest to the longest: every prefix that ends
  just before a full stop, and the name itself. \<open>acc\<close> is the part already read.
\<close>

fun dotted_prefixes_from :: "string \<Rightarrow> string \<Rightarrow> string list" where
  "dotted_prefixes_from acc [] = [acc]"
| "dotted_prefixes_from acc (c # cs) =
     (if c = CHR ''.'' then acc # dotted_prefixes_from (acc @ [c]) cs
      else dotted_prefixes_from (acc @ [c]) cs)"

definition dotted_prefixes :: "string \<Rightarrow> string list" where
  "dotted_prefixes s = dotted_prefixes_from [] s"

text \<open>
  The walk: deny on the first blocked prefix, allow on the first allowed prefix, deny when
  no prefix is listed.
\<close>

fun first_listed_prefix :: "string list \<Rightarrow> bool" where
  "first_listed_prefix [] = False"
| "first_listed_prefix (p # ps) =
     (if p \<in> set BLOCKED_IMPORTS then False
      else if p \<in> set ALLOWED_IMPORTS then True
      else first_listed_prefix ps)"

definition import_decision_reference :: "string \<Rightarrow> bool" where
  "import_decision_reference m =
     (if m \<in> set BLOCKED_IMPORTS then False
      else if m \<in> set ALLOWED_IMPORTS then True
      else first_listed_prefix (dotted_prefixes m))"

section \<open>The sandboxed execution backend\<close>

type_synonym Context = "string \<rightharpoonup> string"

text \<open>
  Modelled from the spec: the error kinds of section 7 that one execution can end in.
  The Python package that raises them (src/rlm/core/exceptions.py) is not among the
  sources.
\<close>

datatype ErrorKind =
  SecurityViolation string
| ExecutionFailure string
| TimeoutExpired

text \<open>
  Modelled from the spec: the error description carried by a result. The kinds are
  reported distinctly (section 7), here by the name of the kind in front of the detail.
  The Python code that formats errors is not among the sources.
\<close>

fun error_text :: "ErrorKind \<Rightarrow> string" where
  "error_text (SecurityViolation m) = ''SecurityViolation: '' @ m"
| "error_text (ExecutionFailure e) = ''ExecutionFailure: '' @ e"
| "error_text TimeoutExpired = ''Timeout''"

text \<open>
  Modelled from the spec: what running a piece of code under the restricted interpreter
  does: the captured output, the exception raised if any, whether the deadline expired,
  the context afterwards and the measurements, which a backend may not have. The
  interpreter (RestrictedPython, used by src/rlm/repl/local.py) is not among the sources.
\<close>

record RunOutcome =
  printed :: string
  raised :: "string option"
  timed_out :: bool
  context_after :: Context
  elapsed_ms :: nat
  peak_bytes :: "nat option"
  cpu_ms :: "nat option"

text \<open>
  Modelled from the spec: the restricted interpreter, an external collaborator. It is
  given by the module names a piece of code imports and by what running the code under
  a context and a deadline (in seconds) does. The interpreter is not among the sources.
\<close>

record Interpreter =
  imported_modules :: "string \<Rightarrow> string list"
  run_code :: "string \<Rightarrow> Context \<Rightarrow> nat \<Rightarrow> RunOutcome"

text \<open>
  Modelled from the spec: the deadline of a request (section 6). The Python server that
  computes it (src/rlm/mcp/server.py) is not among the sources. The \<^verbatim>\<open>timeout\<close> parameter overrides the profile and is at
  most 300; without it the profile's timeout applies, and without a profile the profile
  \<^verbatim>\<open>'default'\<close> (comments of \<^verbatim>\<open>ExecutePythonParams\<close>).
\<close>

definition request_timeout :: "ExecutePythonParams \<Rightarrow> nat" where
  "request_timeout p =
     (case ExecutePythonParams.timeout p of
        Some t \<Rightarrow> min t 300
      | None \<Rightarrow>
          ProfileConfig.timeout
            (getProfile (case profile p of Some n \<Rightarrow> n | None \<Rightarrow> default_profile)))"

text \<open>
  Modelled from the spec: output is hard-truncated at a fixed byte ceiling with the
  truncated flag set (section 4.1). The ceiling is the argument \<open>max_bytes\<close>; the
  documented value is 100 KB. The Python code that captures output
  (src/rlm/repl/local.py) is not among the sources.
\<close>

definition truncate_output :: "nat \<Rightarrow> string \<Rightarrow> string \<times> bool" where
  "truncate_output max_bytes out = (take max_bytes out, max_bytes < length out)"

text \<open>
  Modelled from the spec: the \<open>execute\<close> operation of the Local Restricted Backend
  (section 4.1). The import check comes first: a module that is not allowed gives a
  security error and the interpreter is not run. Otherwise the code runs; a timeout or
  a raised exception gives an error, \<open>success\<close> is set when the code ran to its end
  without either, and the output is truncated at the ceiling. The backend
  (src/rlm/repl/local.py) is not among the sources.
\<close>

definition execute ::
  "Interpreter \<Rightarrow> nat \<Rightarrow> ExecutePythonParams \<Rightarrow> Context \<Rightarrow> Context \<times> REPLResult" where
  "execute interp max_bytes req ctx =
     (case find (\<lambda>m. \<not> isImportAllowed m) (imported_modules interp (code req)) of
        Some m \<Rightarrow>
          (ctx,
           \<lparr>output_text = [], error = Some (error_text (SecurityViolation m)),
            execution_time_ms = 0, truncated = False, memory_peak_bytes = None,
            cpu_time_ms = None, success = False\<rparr>)
      | None \<Rightarrow>
          (let out = run_code interp (code req) ctx (request_timeout req);
               err = (if timed_out out then Some (error_text TimeoutExpired)
                      else map_option (\<lambda>e. error_text (ExecutionFailure e)) (raised out));
               (text_out, cut) = truncate_output max_bytes (printed out)
           in (context_after out,
               \<lparr>output_text = text_out, error = err, execution_time_ms = elapsed_ms out,
                truncated = cut, memory_peak_bytes = peak_bytes out,
                cpu_time_ms = cpu_ms out,
                success = (\<not> timed_out out \<and> raised out = None)\<rparr>)))"

text \<open>
  Modelled from the spec: what running a piece of code in one of the other backend
  variants does (section 4.1: the container, the browser sandbox, the unrestricted local
  process): the outcome of the run and, if the isolation stopped a disallowed operation,
  that operation. These backends (src/rlm/repl/docker.py, src/rlm/repl/wasm.py) are not
  among the sources.
\<close>

record IsolatedOutcome = RunOutcome +
  denied :: "string option"

text \<open>
  Modelled from the spec: a backend variant other than the restricted interpreter, an
  external collaborator given by what running the code under a context and a deadline
  does.
\<close>

type_synonym IsolatedBackend = "string \<Rightarrow> Context \<Rightarrow> nat \<Rightarrow> IsolatedOutcome"

text \<open>
  Modelled from the spec: the \<open>execute\<close> operation of the other backend variants. All
  variants produce the same result shape (section 4.1): a disallowed operation gives a
  security error, distinct from the error of a timeout or of a raised exception;
  \<open>success\<close> is set when the code ran to its end with none of them, and the output is
  truncated at the ceiling (section 8 states the truncation for every execution).
\<close>

definition execute_isolated ::
  "IsolatedBackend \<Rightarrow> nat \<Rightarrow> ExecutePythonParams \<Rightarrow> Context \<Rightarrow> Context \<times> REPLResult" where
  "execute_isolated run max_bytes req ctx =
     (let out = run (code req) ctx (request_timeout req);
          err = (case denied out of
                   Some operation \<Rightarrow> Some (error_text (SecurityViolation operation))
                 | None \<Rightarrow>
                     (if timed_out out then Some (error_text TimeoutExpired)
                      else map_option (\<lambda>e. error_text (ExecutionFailure e)) (raised out)));
          (text_out, cut) = truncate_output max_bytes (printed out)
      in (context_after out,
          \<lparr>output_text = text_out, error = err, execution_time_ms = elapsed_ms out,
           truncated = cut, memory_peak_bytes = peak_bytes out,
           cpu_time_ms = cpu_ms out,
           success = (denied out = None \<and> \<not> timed_out out \<and> raised out = None)\<rparr>))"

section \<open>The session manager\<close>

text \<open>
  Modelled from the spec: a session (section 3) with its trust level, its context and
  its timestamps. The session manager (section 4.2) is a mapping from session id to
  session. The Python server that keeps the sessions (src/rlm/mcp/server.py) is not
  among the sources. The backend handle is not modelled.
\<close>

record Session =
  session_trust_level :: string
  session_context :: Context
  created_at :: nat
  last_access :: nat

type_synonym SessionManager = "string \<rightharpoonup> Session"

text \<open>
  Modelled from the spec: the session a tool call addresses is \<^verbatim>\<open>session_id\<close>, by
  default \<^verbatim>\<open>'default'\<close> (comments of the parameter types). The tool handlers are not
  among the sources.
\<close>

definition session_or_default :: "string option \<Rightarrow> string" where
  "session_or_default sid = (case sid of Some s \<Rightarrow> s | None \<Rightarrow> ''default'')"

text \<open>
  Modelled from the spec: \<open>get_or_create\<close> returns the session of an id, creating it
  with the given trust level and an empty context when the id is unknown, and records
  the access time \<open>now\<close>.
\<close>

definition get_or_create ::
  "nat \<Rightarrow> string \<Rightarrow> string \<Rightarrow> SessionManager \<Rightarrow> SessionManager \<times> Session" where
  "get_or_create now sid level mgr =
     (let s = (case mgr sid of
                 Some s \<Rightarrow> s\<lparr>last_access := now\<rparr>
               | None \<Rightarrow>
                   \<lparr>session_trust_level = level, session_context = Map.empty,
                    created_at = now, last_access = now\<rparr>)
      in (mgr(sid \<mapsto> s), s))"

text \<open>
  Modelled from the spec: \<open>get_context\<close> of the session manager returns the context of
  the session. A session that is referenced for the first time is created with the
  default trust level.
\<close>

definition get_context :: "nat \<Rightarrow> string \<Rightarrow> SessionManager \<Rightarrow> SessionManager \<times> Context" where
  "get_context now sid mgr =
     (let (mgr', s) = get_or_create now sid (trust_level DEFAULT_CONFIG) mgr
      in (mgr', session_context s))"

text \<open>
  Modelled from the spec: \<open>set_context\<close> stores the value, as received, under the key
  in the context of the session.
\<close>

definition set_context ::
  "nat \<Rightarrow> string \<Rightarrow> string \<Rightarrow> string \<Rightarrow> SessionManager \<Rightarrow> SessionManager" where
  "set_context now sid k v mgr =
     (let (mgr', s) = get_or_create now sid (trust_level DEFAULT_CONFIG) mgr
      in mgr'(sid \<mapsto> s\<lparr>session_context := (session_context s)(k \<mapsto> v)\<rparr>))"

text \<open>Modelled from the spec: \<open>clear_context\<close> empties the context of the session.\<close>

definition clear_context :: "nat \<Rightarrow> string \<Rightarrow> SessionManager \<Rightarrow> SessionManager" where
  "clear_context now sid mgr =
     (let (mgr', s) = get_or_create now sid (trust_level DEFAULT_CONFIG) mgr
      in mgr'(sid \<mapsto> s\<lparr>session_context := Map.empty\<rparr>))"

text \<open>Modelled from the spec: \<open>destroy\<close> removes the session and discards its context.\<close>

definition destroy :: "string \<Rightarrow> SessionManager \<Rightarrow> SessionManager" where
  "destroy sid mgr = mgr(sid := None)"

text \<open>
  Modelled from the spec: the context tools of section 6 on the session manager, with
  the parameter types of the SDK: \<open>get_repl_context\<close>, \<open>set_repl_context\<close>,
  \<open>clear_repl_context\<close> and \<open>destroy_session\<close>. The tool handlers
  (src/rlm/mcp/server.py) are not among the sources.
\<close>

definition get_repl_context ::
  "nat \<Rightarrow> GetREPLContextParams \<Rightarrow> SessionManager \<Rightarrow> SessionManager \<times> Context" where
  "get_repl_context now p mgr =
     get_context now (session_or_default (GetREPLContextParams.session_id p)) mgr"

definition set_repl_context ::
  "nat \<Rightarrow> SetREPLContextParams \<Rightarrow> SessionManager \<Rightarrow> SessionManager" where
  "set_repl_context now p mgr =
     set_context now (session_or_default (SetREPLContextParams.session_id p))
       (key p) (value_json p) mgr"

definition clear_repl_context ::
  "nat \<Rightarrow> ClearREPLContextParams \<Rightarrow> SessionManager \<Rightarrow> SessionManager" where
  "clear_repl_context now p mgr =
     clear_context now (session_or_default (ClearREPLContextParams.session_id p)) mgr"

definition destroy_session :: "DestroySessionParams \<Rightarrow> SessionManager \<Rightarrow> SessionManager" where
  "destroy_session p mgr = destroy (DestroySessionParams.session_id p) mgr"

text \<open>
  Modelled from the spec: a session is served by the sandbox when its trust level is
  sandboxed; an id that is not known yet gets the default trust level on first reference.
\<close>

definition sandboxed_session :: "SessionManager \<Rightarrow> string \<Rightarrow> bool" where
  "sandboxed_session mgr sid =
     (case mgr sid of
        None \<Rightarrow> trust_level DEFAULT_CONFIG = ''sandboxed''
      | Some s \<Rightarrow> session_trust_level s = ''sandboxed'')"

text \<open>
  Modelled from the spec: the tool \<open>execute_code\<close>. The session's trust level fixes the
  backend: a sandboxed session is served by the Local Restricted Backend, any other
  session by the backend variant \<open>other\<close> gives for its trust level. The context the
  execution leaves is stored in the session.
\<close>

definition execute_code ::
  "Interpreter \<Rightarrow> (string \<Rightarrow> IsolatedBackend) \<Rightarrow>
   nat \<Rightarrow> nat \<Rightarrow> ExecutePythonParams \<Rightarrow> SessionManager \<Rightarrow> SessionManager \<times> REPLResult" where
  "execute_code interp other max_bytes now p mgr =
     (let sid = session_or_default (ExecutePythonParams.session_id p);
          (mgr', s) = get_or_create now sid (trust_level DEFAULT_CONFIG) mgr;
          (ctx', r) =
            (if session_trust_level s = ''sandboxed''
             then execute interp max_bytes p (session_context s)
             else execute_isolated (other (session_trust_level s)) max_bytes p
                    (session_context s))
      in (mgr'(sid \<mapsto> s\<lparr>session_context := ctx'\<rparr>), r))"

section \<open>The orchestrator dispatch loop\<close>

text \<open>
  The orchestrator (src/rlm/core/orchestrator.py) and the tool registry
  (src/rlm/tools/registry.py) are not among the sources: this section is written from
  sections 3, 4.3, 4.4 and 7 of the specification. Costs are counted in a smallest
  unit. Schema validation, trajectory records and cancellation are left out.
\<close>

text \<open>Modelled from the spec: the budget of a run (section 3).\<close>

record Budget =
  max_depth :: nat
  token_budget :: nat
  tool_call_budget :: nat
  cost_limit :: nat

text \<open>Modelled from the spec: a tool invocation requested by the model.\<close>

record ToolCall =
  call_id :: string
  tool_name :: string
  arguments :: string

text \<open>
  Modelled from the spec: the result of a tool call: its text, the error if the handler
  failed, the tokens it adds to the conversation, and the designated result variable if
  the tool wrote one.
\<close>

record ToolResult =
  result_text :: string
  result_error :: "string option"
  result_tokens :: nat
  result_variable :: "string option"

text \<open>
  Modelled from the spec: a completion of the model: its text, the tool calls it
  requests, and the tokens and the cost of the exchange.
\<close>

record ModelResponse =
  response_text :: string
  tool_calls :: "ToolCall list"
  response_tokens :: nat
  response_cost :: nat

text \<open>Modelled from the spec: the messages of the conversation.\<close>

datatype Message =
  TaskMessage string
| ModelMessage ModelResponse
| ToolMessage ToolCall ToolResult

text \<open>
  Modelled from the spec: the two collaborators of the loop. The model answers a
  conversation with a completion; the registry maps a tool name to its handler.
\<close>

type_synonym Model = "Message list \<Rightarrow> ModelResponse"

type_synonym ToolRegistry = "string \<rightharpoonup> (string \<Rightarrow> ToolResult)"

text \<open>
  Modelled from the spec: dispatch through the registry (section 4.3). An unknown name
  gives a result that carries the ToolNotFound condition; a handler's failure is part
  of the result it returns.
\<close>

definition dispatch :: "ToolRegistry \<Rightarrow> ToolCall \<Rightarrow> ToolResult" where
  "dispatch reg c =
     (case reg (tool_name c) of
        None \<Rightarrow>
          \<lparr>result_text = [], result_error = Some (''ToolNotFound: '' @ tool_name c),
           result_tokens = 0, result_variable = None\<rparr>
      | Some handler \<Rightarrow> handler (arguments c))"

text \<open>Modelled from the spec: the budget errors of section 7, which end a run forced.\<close>

datatype ForcedReason =
  RecursionLimitExceeded
| TokenBudgetExhausted
| ToolCallBudgetExhausted
| CostLimitExceeded

text \<open>Modelled from the spec: how a run ends, by an answer of the model or forced.\<close>

datatype Termination = Completed | Forced ForcedReason

text \<open>Modelled from the spec: the states of the state machine of section 4.4.\<close>

datatype Phase =
  awaiting_model
| awaiting_tools "ToolCall list"
| terminal Termination

text \<open>
  Modelled from the spec: what a run has consumed and collected so far: the depth, the
  conversation, the tokens, tool calls and cost used, the number of model calls and of
  tool-dispatch round trips, the text of the last response and the result variable
  written last.
\<close>

record RunState =
  depth :: nat
  messages :: "Message list"
  tokens_used :: nat
  tool_calls_used :: nat
  cost_used :: nat
  model_calls :: nat
  round_trips :: nat
  last_response :: string
  written_variable :: "string option"

text \<open>
  Modelled from the spec: the initial state, with the task as the first message and
  nothing consumed; the loop starts from it awaiting the model.
\<close>

definition initial_state :: "string \<Rightarrow> RunState" where
  "initial_state task =
     \<lparr>depth = 0, messages = [TaskMessage task], tokens_used = 0, tool_calls_used = 0,
      cost_used = 0, model_calls = 0, round_trips = 0, last_response = [],
      written_variable = None\<rparr>"

text \<open>
  Modelled from the spec: the designated result variable after a round of tool calls:
  the one written last in the round, or the one held before when no tool wrote one.
\<close>

definition last_written :: "ToolResult list \<Rightarrow> string option \<Rightarrow> string option" where
  "last_written results v =
     (case filter (\<lambda>w. w \<noteq> None) (map result_variable results) of
        [] \<Rightarrow> v
      | ws \<Rightarrow> last ws)"

text \<open>
  Modelled from the spec: one transition of the loop. The budgets are checked before
  the model is called and before the tools are dispatched. Awaiting the model: a run
  whose token budget or cost limit is used up ends forced; otherwise the model is
  called, and its response ends the run when it requests no tool. Awaiting the tools:
  a run whose depth would exceed \<open>max_depth\<close>, or whose tool calls would exceed the
  tool-call budget, ends forced; otherwise every requested call is dispatched in the
  order requested, the results are appended, and the depth grows by one.
\<close>

definition step :: "Model \<Rightarrow> ToolRegistry \<Rightarrow> Budget \<Rightarrow> Phase \<times> RunState \<Rightarrow> Phase \<times> RunState" where
  "step mdl reg b ps =
     (case ps of
        (terminal t, st) \<Rightarrow> (terminal t, st)
      | (awaiting_model, st) \<Rightarrow>
          (if token_budget b \<le> tokens_used st then (terminal (Forced TokenBudgetExhausted), st)
           else if cost_limit b \<le> cost_used st then (terminal (Forced CostLimitExceeded), st)
           else
             (let r = mdl (messages st);
                  st' = st\<lparr>messages := messages st @ [ModelMessage r],
                           tokens_used := tokens_used st + response_tokens r,
                           cost_used := cost_used st + response_cost r,
                           model_calls := model_calls st + 1,
                           last_response := response_text r\<rparr>
              in if tool_calls r = [] then (terminal Completed, st')
                 else (awaiting_tools (tool_calls r), st')))
      | (awaiting_tools calls, st) \<Rightarrow>
          (if max_depth b < depth st + 1 then (terminal (Forced RecursionLimitExceeded), st)
           else if tool_call_budget b < tool_calls_used st + length calls
           then (terminal (Forced ToolCallBudgetExhausted), st)
           else
             (let results = map (dispatch reg) calls;
                  st' = st\<lparr>messages := messages st @ map2 ToolMessage calls results,
                           tokens_used := tokens_used st + sum_list (map result_tokens results),
                           tool_calls_used := tool_calls_used st + length calls,
                           round_trips := round_trips st + 1,
                           depth := depth st + 1,
                           written_variable := last_written results (written_variable st)\<rparr>
              in (awaiting_model, st'))))"

text \<open>
  The transitions a state has left at most: two for every level of depth that remains,
  and one or two more to reach a terminal state.
\<close>

definition loop_measure :: "Budget \<Rightarrow> Phase \<times> RunState \<Rightarrow> nat" where
  "loop_measure b ps =
     (case ps of
        (terminal t, st) \<Rightarrow> 0
      | (awaiting_tools calls, st) \<Rightarrow> 2 * (max_depth b - depth st) + 1
      | (awaiting_model, st) \<Rightarrow> 2 * (max_depth b - depth st) + 2)"

text \<open>Modelled from the spec: the loop takes transitions until the state is terminal.\<close>

function run_loop ::
  "Model \<Rightarrow> ToolRegistry \<Rightarrow> Budget \<Rightarrow> Phase \<times> RunState \<Rightarrow> Termination \<times> RunState" where
  "run_loop mdl reg b (terminal t, st) = (t, st)"
| "run_loop mdl reg b (awaiting_model, st) =
     run_loop mdl reg b (step mdl reg b (awaiting_model, st))"
| "run_loop mdl reg b (awaiting_tools calls, st) =
     run_loop mdl reg b (step mdl reg b (awaiting_tools calls, st))"
  by pat_completeness auto
termination
  by (relation "measure (\<lambda>(mdl, reg, b, ps). loop_measure b ps)")
     (auto simp: loop_measure_def step_def Let_def split: if_splits)

text \<open>
  What holds in every state the loop reaches from the initial state: the round trips
  counted equal the depth, the depth is within \<open>max_depth\<close>, the tool calls dispatched
  are within the tool-call budget, and the model was called at most once more than the
  tools were dispatched.
\<close>

definition loop_invariant :: "Budget \<Rightarrow> Phase \<times> RunState \<Rightarrow> bool" where
  "loop_invariant b ps =
     (case ps of (ph, st) \<Rightarrow>
        round_trips st = depth st \<and> depth st \<le> max_depth b
        \<and> tool_calls_used st \<le> tool_call_budget b
        \<and> model_calls st \<le> depth st + (case ph of awaiting_model \<Rightarrow> 0 | _ \<Rightarrow> 1))"

text \<open>
  Modelled from the spec: the terminal result of a run, in the type \<^verbatim>\<open>AgentResult\<close>
  of the SDK. The answer is the designated result variable if a tool wrote one, and
  the text of the last model response otherwise; a forced termination reports it as
  the partial answer, with the flag set. The run id and the duration come from the
  caller.
\<close>

definition agent_result :: "string \<Rightarrow> nat \<Rightarrow> Termination \<times> RunState \<Rightarrow> AgentResult" where
  "agent_result rid duration fin =
     (case fin of (t, st) \<Rightarrow>
        \<lparr>answer = (case written_variable st of Some v \<Rightarrow> v | None \<Rightarrow> last_response st),
         answer_source =
           (case t of
              Forced reason \<Rightarrow> ''forced''
            | Completed \<Rightarrow>
                (case written_variable st of Some v \<Rightarrow> ''final_var'' | None \<Rightarrow> ''final'')),
         iterations = round_trips st,
         total_tokens = tokens_used st,
         total_cost = cost_used st,
         duration_ms = duration,
         forced_termination = (t \<noteq> Completed),
         run_id = rid,
         success = (t = Completed)\<rparr>)"

text \<open>
  Modelled from the spec: a run of the agent on a task, from the initial state to the
  terminal result.
\<close>

definition rlm_agent_run ::
  "Model \<Rightarrow> ToolRegistry \<Rightarrow> Budget \<Rightarrow> string \<Rightarrow> string \<Rightarrow> nat \<Rightarrow> AgentResult" where
  "rlm_agent_run mdl reg b task rid duration =
     agent_result rid duration (run_loop mdl reg b (awaiting_model, initial_state task))"

section \<open>Properties\<close>

subsection \<open>Splitting and joining\<close>

declare split_dot.simps [simp del]
declare isImportAllowed_loop.simps [simp del]

lemma split_dot_Nil: "split_dot [] = [[]]"
  by (simp add: split_dot.simps)

lemma split_dot_dot: "split_dot (CHR ''.'' # cs) = [] # split_dot cs"
  by (subst split_dot.simps) simp

lemma split_dot_other:
  "c \<noteq> CHR ''.'' \<Longrightarrow> split_dot (c # cs) = (c # hd (split_dot cs)) # tl (split_dot cs)"
proof -
  assume c: "c \<noteq> CHR ''.''"
  have dw: "dropWhile (\<lambda>c. c \<noteq> CHR ''.'') (c # cs) = dropWhile (\<lambda>c. c \<noteq> CHR ''.'') cs"
    and tw: "takeWhile (\<lambda>c. c \<noteq> CHR ''.'') (c # cs) = c # takeWhile (\<lambda>c. c \<noteq> CHR ''.'') cs"
    using c by simp_all
  have a: "split_dot (c # cs) =
      (case dropWhile (\<lambda>c. c \<noteq> CHR ''.'') cs of
         [] \<Rightarrow> [c # cs]
       | _ # rest \<Rightarrow> (c # takeWhile (\<lambda>c. c \<noteq> CHR ''.'') cs) # split_dot rest)"
    using split_dot.simps [of "c # cs"] unfolding dw tw .
  have b: "split_dot cs =
      (case dropWhile (\<lambda>c. c \<noteq> CHR ''.'') cs of
         [] \<Rightarrow> [cs]
       | _ # rest \<Rightarrow> takeWhile (\<lambda>c. c \<noteq> CHR ''.'') cs # split_dot rest)"
    by (rule split_dot.simps)
  show ?thesis
  proof (cases "dropWhile (\<lambda>c. c \<noteq> CHR ''.'') cs")
    case Nil
    show ?thesis by (simp only: a b Nil list.case list.sel)
  next
    case (Cons x rest)
    show ?thesis by (simp only: a b Cons list.case list.sel)
  qed
qed

lemma split_dot_nonempty: "split_dot s \<noteq> []"
  by (subst split_dot.simps) (simp split: list.splits)

lemma join_dot_Cons_Cons: "join_dot ((c # p) # ps) = c # join_dot (p # ps)"
  by (cases ps) simp_all

lemma join_dot_Nil_Cons: "ps \<noteq> [] \<Longrightarrow> join_dot ([] # ps) = CHR ''.'' # join_dot ps"
  by (cases ps) simp_all

lemma walked_Cons:
  "walked (p # ps) = p # map (\<lambda>i. join_dot (p # take (i + 1) ps)) [0..<length ps]"
proof -
  have "[0..<length (p # ps)] = 0 # map Suc [0..<length ps]"
    by (simp add: upt_conv_Cons map_Suc_upt del: upt_Suc)
  then show ?thesis
    unfolding walked_def by (simp add: o_def)
qed

lemma loop_walk:
  "isImportAllowed_loop parts i =
     first_listed_prefix (map (\<lambda>j. join_dot (take (j + 1) parts)) [i..<length parts])"
proof (induction parts i rule: isImportAllowed_loop.induct)
  case (1 parts i)
  show ?case
  proof (cases "i < length parts")
    case True
    then have u: "[i..<length parts] = i # [i + 1..<length parts]"
      by (simp add: upt_conv_Cons)
    show ?thesis
      using True 1 by (subst isImportAllowed_loop.simps) (simp add: u Let_def)
  next
    case False
    then show ?thesis by (subst isImportAllowed_loop.simps) simp
  qed
qed

lemma walked_split_dot:
  "map (\<lambda>q. acc @ q) (walked (split_dot s)) = dotted_prefixes_from acc s"
proof (induction s arbitrary: acc)
  case Nil
  show ?case by (simp add: split_dot_Nil walked_def)
next
  case (Cons c cs)
  obtain p ps where sp: "split_dot cs = p # ps"
    using split_dot_nonempty [of cs] by (cases "split_dot cs") auto
  show ?case
  proof (cases "c = CHR ''.''")
    case True
    have "walked ([] # split_dot cs) = [] # map (\<lambda>q. CHR ''.'' # q) (walked (split_dot cs))"
      unfolding walked_Cons by (simp add: walked_def sp join_dot_Nil_Cons)
    with True Cons [of "acc @ [c]"] show ?thesis
      by (simp add: split_dot_dot flip: Cons)
  next
    case False
    have "walked ((c # p) # ps) = map (\<lambda>q. c # q) (walked (p # ps))"
      unfolding walked_def by (simp add: join_dot_Cons_Cons)
    with False Cons [of "acc @ [c]"] show ?thesis
      by (simp add: split_dot_other sp o_def)
  qed
qed

lemma isImportAllowed_reference_aux: "isImportAllowed m = import_decision_reference m"
proof -
  have "map (\<lambda>j. join_dot (take (j + 1) (split_dot m))) [0..<length (split_dot m)] =
        dotted_prefixes m"
    using walked_split_dot [of "[]" m] by (simp add: walked_def dotted_prefixes_def)
  then show ?thesis
    by (simp add: isImportAllowed_def import_decision_reference_def loop_walk)
qed

lemma first_listed_prefix_append:
  "first_listed_prefix xs \<Longrightarrow> first_listed_prefix (xs @ ys)"
  by (induction xs) (auto split: if_splits)

lemma dotted_prefixes_from_append:
  "dotted_prefixes_from acc (a @ CHR ''.'' # b) =
     dotted_prefixes_from acc a @ dotted_prefixes_from (acc @ a @ [CHR ''.'']) b"
  by (induction a arbitrary: acc) simp_all

lemma allowed_walk: "\<forall>p\<in>set ALLOWED_IMPORTS. first_listed_prefix (dotted_prefixes p)"
  by (simp add: ALLOWED_IMPORTS_def BLOCKED_IMPORTS_def dotted_prefixes_def)

lemma blocked_walk: "\<forall>p\<in>set BLOCKED_IMPORTS. \<not> first_listed_prefix (dotted_prefixes p)"
  by (simp add: ALLOWED_IMPORTS_def BLOCKED_IMPORTS_def dotted_prefixes_def)

lemma submodule_walk:
  assumes "p \<in> set ALLOWED_IMPORTS"
  shows "first_listed_prefix (dotted_prefixes (p @ CHR ''.'' # rest))"
  using assms allowed_walk
  by (simp add: dotted_prefixes_def dotted_prefixes_from_append first_listed_prefix_append)

lemma allowed_blocked_disjoint_aux:
  "set ALLOWED_IMPORTS \<inter> set BLOCKED_IMPORTS = {}"
  unfolding ALLOWED_IMPORTS_def BLOCKED_IMPORTS_def by simp

subsection \<open>The import check\<close>

text \<open>
  Claim C3. The decision of \<^verbatim>\<open>isImportAllowed\<close> equals the reference algorithm of the
  specification for every module name: deny a blocked full name, allow an allowed full
  name, otherwise walk the dotted prefixes from the shortest to the longest, deny on the
  first blocked one, allow on the first allowed one, and deny when none is listed. Both
  sides are functions of the module name alone.
\<close>

theorem isImportAllowed_refines_reference:
  "isImportAllowed m = import_decision_reference m"
proof -
  have "walked (split_dot m) = dotted_prefixes m"
    using walked_split_dot [of "[]" m] by (simp add: dotted_prefixes_def)
  then have "isImportAllowed_loop (split_dot m) 0 = first_listed_prefix (dotted_prefixes m)"
    by (simp add: loop_walk walked_def)
  then show ?thesis
    by (simp add: isImportAllowed_def import_decision_reference_def)
qed

text \<open>
  Claim C2. Every name of \<^verbatim>\<open>ALLOWED_IMPORTS\<close> is accepted, and so is every dotted
  submodule name below it: the name, a full stop, and any rest.
\<close>

theorem allowed_imports_accepted:
  assumes "p \<in> set ALLOWED_IMPORTS"
  shows "isImportAllowed p \<and> (\<forall>rest. isImportAllowed (p @ CHR ''.'' # rest))"
proof -
  have "p \<notin> set BLOCKED_IMPORTS"
    using assms allowed_blocked_disjoint_aux by auto
  then have 1: "isImportAllowed p"
    using assms by (simp add: isImportAllowed_def)
  have 2: "isImportAllowed (p @ CHR ''.'' # rest)" for rest
  proof -
    have w: "first_listed_prefix (dotted_prefixes (p @ CHR ''.'' # rest))"
      using assms by (rule submodule_walk)
    then have "p @ CHR ''.'' # rest \<notin> set BLOCKED_IMPORTS"
      using blocked_walk by blast
    with w show ?thesis
      by (simp add: isImportAllowed_reference_aux import_decision_reference_def)
  qed
  from 1 2 show ?thesis by blast
qed

theorem allowed_imports_accepted_witness:
  "''urllib.parse'' \<in> set ALLOWED_IMPORTS \<and> isImportAllowed ''urllib.parse''
   \<and> isImportAllowed ''urllib.parse.quote''"
proof -
  have h: "''urllib.parse'' \<in> set ALLOWED_IMPORTS"
    by (simp add: ALLOWED_IMPORTS_def)
  from allowed_imports_accepted [OF h] have
    "isImportAllowed ''urllib.parse'' \<and> isImportAllowed (''urllib.parse'' @ CHR ''.'' # ''quote'')"
    by blast
  with h show ?thesis by simp
qed

text \<open>
  Claim C10. No module name is in both \<^verbatim>\<open>ALLOWED_IMPORTS\<close> and \<^verbatim>\<open>BLOCKED_IMPORTS\<close>.
\<close>

theorem allowed_blocked_disjoint:
  "set ALLOWED_IMPORTS \<inter> set BLOCKED_IMPORTS = {}"
  unfolding ALLOWED_IMPORTS_def BLOCKED_IMPORTS_def by simp

subsection \<open>Profiles and trust levels\<close>

text \<open>
  Claim C4. The four profiles have the limits quick = 5 s and \<^verbatim>\<open>'128m'\<close>, default = 30 s
  and \<^verbatim>\<open>'512m'\<close>, analysis = 120 s and \<^verbatim>\<open>'2g'\<close>, extended = 300 s and \<^verbatim>\<open>'4g'\<close> (the
  memory limits are written as the code writes them: 128 MB, 512 MB, 2 GB, 4 GB); there
  is no other profile, and \<^verbatim>\<open>getProfile\<close> returns the entry of its name.
\<close>

theorem execution_profiles_limits:
  "ProfileConfig.timeout (EXECUTION_PROFILES quick) = 5
   \<and> memory (EXECUTION_PROFILES quick) = ''128m''
   \<and> ProfileConfig.timeout (EXECUTION_PROFILES default_profile) = 30
   \<and> memory (EXECUTION_PROFILES default_profile) = ''512m''
   \<and> ProfileConfig.timeout (EXECUTION_PROFILES analysis) = 120
   \<and> memory (EXECUTION_PROFILES analysis) = ''2g''
   \<and> ProfileConfig.timeout (EXECUTION_PROFILES extended) = 300
   \<and> memory (EXECUTION_PROFILES extended) = ''4g''
   \<and> (UNIV :: ExecutionProfile set) = {quick, default_profile, analysis, extended}
   \<and> getProfile name = EXECUTION_PROFILES name"
proof -
  have "(UNIV :: ExecutionProfile set) = {quick, default_profile, analysis, extended}"
  proof -
    have "x \<in> {quick, default_profile, analysis, extended}" for x :: ExecutionProfile
      by (cases x) simp_all
    then show ?thesis by blast
  qed
  then show ?thesis by (simp add: getProfile_def)
qed

text \<open>
  Claim C5, as the claim states it, fails: the values of \<^verbatim>\<open>TrustLevel\<close> are not
  sandboxed, container and local, since \<^verbatim>\<open>'docker'\<close> is a trust level and
  \<^verbatim>\<open>'container'\<close> is none.
\<close>

theorem trust_level_container_counterexample:
  "\<not> (TrustLevel = {''sandboxed'', ''container'', ''local''})"
proof
  assume eq: "TrustLevel = {''sandboxed'', ''container'', ''local''}"
  have "''docker'' \<in> TrustLevel"
    by (simp add: TrustLevel_def)
  then have "''docker'' \<in> {''sandboxed'', ''container'', ''local''}"
    by (simp only: eq)
  then show False by simp
qed

text \<open>
  Claim C5, amended. A trust level is exactly one of the three values sandboxed, docker
  and local: \<^verbatim>\<open>TrustLevel\<close> admits these values and no others. The default trust level
  is one of them.
\<close>

theorem trust_level_values:
  "(s \<in> TrustLevel) = (s = ''sandboxed'' \<or> s = ''docker'' \<or> s = ''local'')
   \<and> card TrustLevel = 3
   \<and> trust_level DEFAULT_CONFIG \<in> TrustLevel"
  by (simp add: TrustLevel_def DEFAULT_CONFIG_def)

subsection \<open>Results of the sandboxed backend\<close>

lemma execute_rejected:
  assumes "find (\<lambda>m. \<not> isImportAllowed m) (imported_modules interp (code req)) = Some m"
  shows "execute interp max_bytes req ctx =
          (ctx,
           \<lparr>output_text = [], error = Some (error_text (SecurityViolation m)),
            execution_time_ms = 0, truncated = False, memory_peak_bytes = None,
            cpu_time_ms = None, success = False\<rparr>)"
  using assms by (simp add: execute_def)

lemma execute_run:
  assumes "find (\<lambda>m. \<not> isImportAllowed m) (imported_modules interp (code req)) = None"
  shows "execute interp max_bytes req ctx =
          (let out = run_code interp (code req) ctx (request_timeout req);
               err = (if timed_out out then Some (error_text TimeoutExpired)
                      else map_option (\<lambda>e. error_text (ExecutionFailure e)) (raised out))
           in (context_after out,
               \<lparr>output_text = take max_bytes (printed out), error = err,
                execution_time_ms = elapsed_ms out,
                truncated = (max_bytes < length (printed out)),
                memory_peak_bytes = peak_bytes out,
                cpu_time_ms = cpu_ms out,
                success = (\<not> timed_out out \<and> raised out = None)\<rparr>))"
  using assms by (simp add: execute_def truncate_output_def Let_def)

lemma execute_invariant:
  "(\<not> REPLResult.success (snd (execute interp max_bytes req ctx))) =
     (error (snd (execute interp max_bytes req ctx)) \<noteq> None)
   \<and> error (snd (execute interp max_bytes req ctx)) \<noteq> Some []"
proof (cases "find (\<lambda>m. \<not> isImportAllowed m) (imported_modules interp (code req))")
  case None
  then show ?thesis
    by (auto simp: execute_run Let_def)
next
  case (Some m)
  then show ?thesis
    by (simp add: execute_rejected)
qed

lemma execute_isolated_invariant:
  "(\<not> REPLResult.success (snd (execute_isolated run max_bytes req ctx))) =
     (error (snd (execute_isolated run max_bytes req ctx)) \<noteq> None)
   \<and> error (snd (execute_isolated run max_bytes req ctx)) \<noteq> Some []"
  by (auto simp: execute_isolated_def truncate_output_def Let_def split: option.splits)

lemma execute_code_result:
  "snd (execute_code interp other max_bytes now p mgr) =
     (let s = snd (get_or_create now (session_or_default (ExecutePythonParams.session_id p))
                (trust_level DEFAULT_CONFIG) mgr)
      in if session_trust_level s = ''sandboxed''
         then snd (execute interp max_bytes p (session_context s))
         else snd (execute_isolated (other (session_trust_level s)) max_bytes p
                (session_context s)))"
  by (simp add: execute_code_def Let_def split_beta)

text \<open>
  Claim C6. In every result of an execute operation, \<open>success\<close> is false if and only if
  the error field is non-empty: it holds an error description, and a description is never
  the empty string. This holds for the Local Restricted Backend, for every other backend
  variant, and for the tool \<open>execute_code\<close> on every session, whatever its trust level.
\<close>

theorem success_iff_no_error:
  "((\<not> REPLResult.success (snd (execute interp max_bytes req ctx))) =
      (error (snd (execute interp max_bytes req ctx)) \<noteq> None)
    \<and> error (snd (execute interp max_bytes req ctx)) \<noteq> Some [])
   \<and> ((\<not> REPLResult.success (snd (execute_isolated run max_bytes req ctx))) =
      (error (snd (execute_isolated run max_bytes req ctx)) \<noteq> None)
    \<and> error (snd (execute_isolated run max_bytes req ctx)) \<noteq> Some [])
   \<and> ((\<not> REPLResult.success (snd (execute_code interp other max_bytes now req mgr))) =
      (error (snd (execute_code interp other max_bytes now req mgr)) \<noteq> None)
    \<and> error (snd (execute_code interp other max_bytes now req mgr)) \<noteq> Some [])"
proof (intro conjI)
  show "(\<not> REPLResult.success (snd (execute interp max_bytes req ctx))) =
      (error (snd (execute interp max_bytes req ctx)) \<noteq> None)"
    and "error (snd (execute interp max_bytes req ctx)) \<noteq> Some []"
    using execute_invariant [of interp max_bytes req ctx] by blast+
  show "(\<not> REPLResult.success (snd (execute_isolated run max_bytes req ctx))) =
      (error (snd (execute_isolated run max_bytes req ctx)) \<noteq> None)"
    and "error (snd (execute_isolated run max_bytes req ctx)) \<noteq> Some []"
    using execute_isolated_invariant [of run max_bytes req ctx] by blast+
  define s where "s = snd (get_or_create now
      (session_or_default (ExecutePythonParams.session_id req)) (trust_level DEFAULT_CONFIG) mgr)"
  have r: "snd (execute_code interp other max_bytes now req mgr) =
     (if session_trust_level s = ''sandboxed''
      then snd (execute interp max_bytes req (session_context s))
      else snd (execute_isolated (other (session_trust_level s)) max_bytes req
             (session_context s)))"
    by (simp add: execute_code_result Let_def s_def)
  show "(\<not> REPLResult.success (snd (execute_code interp other max_bytes now req mgr))) =
      (error (snd (execute_code interp other max_bytes now req mgr)) \<noteq> None)"
    and "error (snd (execute_code interp other max_bytes now req mgr)) \<noteq> Some []"
    using execute_invariant [of interp max_bytes req "session_context s"]
      execute_isolated_invariant [of "other (session_trust_level s)" max_bytes req
        "session_context s"]
    unfolding r by (cases "session_trust_level s = ''sandboxed''"; simp)+
qed



subsection \<open>Blocked imports\<close>

lemma get_context_touch:
  "snd (get_context t sid (fst (get_or_create now sid' level mgr))) = snd (get_context t sid mgr)"
  by (cases "sid = sid'") (simp_all add: get_context_def get_or_create_def Let_def split: option.splits)

lemma trust_level_created:
  "sandboxed_session mgr sid \<Longrightarrow>
     session_trust_level (snd (get_or_create now sid (trust_level DEFAULT_CONFIG) mgr)) = ''sandboxed''"
  by (simp add: sandboxed_session_def get_or_create_def Let_def split: option.splits)

lemma find_disallowed:
  assumes "m \<in> set ms" and "\<not> isImportAllowed m"
  shows "\<exists>m'. find (\<lambda>m. \<not> isImportAllowed m) ms = Some m' \<and> \<not> isImportAllowed m'"
proof (cases "find (\<lambda>m. \<not> isImportAllowed m) ms")
  case None
  with assms show ?thesis by (simp add: find_None_iff)
next
  case (Some m')
  then show ?thesis by (auto simp: find_Some_iff)
qed

lemma execute_code_sandboxed:
  assumes "sandboxed_session mgr (session_or_default (ExecutePythonParams.session_id p))"
  shows "execute_code interp other max_bytes now p mgr =
     (let sid = session_or_default (ExecutePythonParams.session_id p);
          gs = get_or_create now sid (trust_level DEFAULT_CONFIG) mgr;
          ex = execute interp max_bytes p (session_context (snd gs))
      in ((fst gs)(sid \<mapsto> (snd gs)\<lparr>session_context := fst ex\<rparr>), snd ex))"
  using trust_level_created [OF assms, of now]
  by (simp add: execute_code_def Let_def split_beta)

text \<open>
  Claim C1. Every name of \<^verbatim>\<open>BLOCKED_IMPORTS\<close> is rejected by \<^verbatim>\<open>isImportAllowed\<close>, and
  \<open>execute_code\<close> on a sandboxed session, for code that imports such a name, returns
  \<open>success = False\<close> with a security error and no output before any code runs: the
  context of every session is what it was, and the result does not depend on what
  running the code would do.
\<close>

theorem blocked_imports_rejected:
  assumes "m \<in> set BLOCKED_IMPORTS"
  shows "\<not> isImportAllowed m \<and>
    (m \<in> set (imported_modules interp (code p))
     \<and> sandboxed_session mgr (session_or_default (ExecutePythonParams.session_id p))
     \<longrightarrow> (let res = execute_code interp other max_bytes now p mgr; r = snd res
          in \<not> REPLResult.success r
           \<and> (\<exists>m'. \<not> isImportAllowed m' \<and> error r = Some (error_text (SecurityViolation m')))
           \<and> output_text r = []
           \<and> (\<forall>t sid. snd (get_context t sid (fst res)) = snd (get_context t sid mgr))
           \<and> (\<forall>run'. execute_code (interp\<lparr>run_code := run'\<rparr>) other max_bytes now p mgr = res)))"
proof -
  have blocked: "\<not> isImportAllowed m"
    using assms by (simp add: isImportAllowed_def)
  have "let res = execute_code interp other max_bytes now p mgr; r = snd res
          in \<not> REPLResult.success r
           \<and> (\<exists>m'. \<not> isImportAllowed m' \<and> error r = Some (error_text (SecurityViolation m')))
           \<and> output_text r = []
           \<and> (\<forall>t sid. snd (get_context t sid (fst res)) = snd (get_context t sid mgr))
           \<and> (\<forall>run'. execute_code (interp\<lparr>run_code := run'\<rparr>) other max_bytes now p mgr = res)"
    if imp: "m \<in> set (imported_modules interp (code p))"
      and sb: "sandboxed_session mgr (session_or_default (ExecutePythonParams.session_id p))"
  proof -
    obtain m' where f: "find (\<lambda>m. \<not> isImportAllowed m) (imported_modules interp (code p)) = Some m'"
      and na: "\<not> isImportAllowed m'"
      using find_disallowed [OF imp blocked] by blast
    have f': "find (\<lambda>m. \<not> isImportAllowed m)
        (imported_modules (interp\<lparr>run_code := run'\<rparr>) (code p)) = Some m'" for run'
      using f by simp
    define sid where "sid = session_or_default (ExecutePythonParams.session_id p)"
    define gs where "gs = get_or_create now sid (trust_level DEFAULT_CONFIG) mgr"
    have same: "(snd gs)\<lparr>session_context := session_context (snd gs)\<rparr> = snd gs"
      by simp
    have upd: "(fst gs)(sid \<mapsto> snd gs) = fst gs"
      by (simp add: gs_def get_or_create_def Let_def)
    have res: "execute_code i other max_bytes now p mgr =
       (fst gs,
        \<lparr>output_text = [], error = Some (error_text (SecurityViolation m')),
         execution_time_ms = 0, truncated = False, memory_peak_bytes = None,
         cpu_time_ms = None, success = False\<rparr>)"
      if "find (\<lambda>m. \<not> isImportAllowed m) (imported_modules i (code p)) = Some m'" for i
      using sb that
      by (simp add: execute_code_sandboxed execute_rejected Let_def same upd
          flip: sid_def gs_def)
    have ctx: "snd (get_context t s (fst gs)) = snd (get_context t s mgr)" for t s
      unfolding gs_def by (rule get_context_touch)
    show ?thesis
      using na by (auto simp: Let_def res [OF f] res [OF f'] ctx)
  qed
  with blocked show ?thesis by blast
qed

theorem blocked_imports_rejected_witness:
  "(let interp = \<lparr>imported_modules = (\<lambda>c. [''json'', ''os'']),
          run_code = (\<lambda>c ctx t. \<lparr>printed = ''ran'', raised = None, timed_out = False,
            context_after = ctx(''x'' \<mapsto> ''1''), elapsed_ms = 1, peak_bytes = None,
            cpu_ms = None\<rparr>)\<rparr>;
        p = \<lparr>code = ''import json, os'', timeout = None, profile = None,
          ExecutePythonParams.session_id = None\<rparr>;
        res = execute_code interp (\<lambda>level q ctx. undefined) 102400 0 p Map.empty
    in ''os'' \<in> set BLOCKED_IMPORTS
     \<and> ''os'' \<in> set (imported_modules interp (code p))
     \<and> sandboxed_session Map.empty (session_or_default (ExecutePythonParams.session_id p))
     \<and> \<not> isImportAllowed ''os''
     \<and> \<not> REPLResult.success (snd res)
     \<and> output_text (snd res) = []
     \<and> snd (get_context 1 ''default'' (fst res)) = Map.empty)"
proof -
  have b: "''os'' \<in> set BLOCKED_IMPORTS"
    by (simp add: BLOCKED_IMPORTS_def)
  have s: "sandboxed_session Map.empty (session_or_default None)"
    by (simp add: sandboxed_session_def DEFAULT_CONFIG_def)
  have g: "snd (get_context 1 ''default'' Map.empty) = Map.empty"
    by (simp add: get_context_def get_or_create_def Let_def)
  show ?thesis
    using b s g
      blocked_imports_rejected [OF b,
        where interp = "\<lparr>imported_modules = (\<lambda>c. [''json'', ''os'']),
          run_code = (\<lambda>c ctx t. \<lparr>printed = ''ran'', raised = None, timed_out = False,
            context_after = ctx(''x'' \<mapsto> ''1''), elapsed_ms = 1, peak_bytes = None,
            cpu_ms = None\<rparr>)\<rparr>"
        and p = "\<lparr>code = ''import json, os'', timeout = None, profile = None,
          ExecutePythonParams.session_id = None\<rparr>"
        and mgr = Map.empty and other = "\<lambda>level q ctx. undefined"
        and max_bytes = 102400 and now = 0]
    by (simp add: Let_def)
qed

subsection \<open>Session contexts\<close>

lemma set_then_get:
  "snd (get_context t2 sid (set_context t1 sid k v mgr)) k = Some v"
  by (simp add: set_context_def get_context_def get_or_create_def Let_def split: option.splits)

lemma clear_then_get:
  "snd (get_context t2 sid (clear_context t1 sid mgr)) = Map.empty"
  by (simp add: clear_context_def get_context_def get_or_create_def Let_def split: option.splits)

lemma clear_other_session:
  "sid' \<noteq> sid \<Longrightarrow> clear_context t1 sid mgr sid' = mgr sid'"
  by (simp add: clear_context_def get_or_create_def Let_def split: option.splits)

lemma clear_other_context:
  "sid' \<noteq> sid \<Longrightarrow>
     snd (get_context t2 sid' (clear_context t1 sid mgr)) = snd (get_context t2 sid' mgr)"
  by (simp add: clear_context_def get_context_def get_or_create_def Let_def split: option.splits)

text \<open>
  Claim C7. After \<open>set_repl_context\<close> with key \<open>k\<close> and value \<open>v\<close>, \<open>get_repl_context\<close>
  on the same session returns a mapping with \<open>k \<mapsto> v\<close>. After \<open>clear_repl_context\<close>
  the context of that session is empty, and every other session, with its context, is
  what it was.
\<close>

theorem context_set_get_clear:
  "(session_or_default (GetREPLContextParams.session_id q) =
      session_or_default (SetREPLContextParams.session_id p)
    \<longrightarrow> snd (get_repl_context later q (set_repl_context now p mgr)) (key p) = Some (value_json p))
   \<and> (session_or_default (GetREPLContextParams.session_id q) =
      session_or_default (ClearREPLContextParams.session_id c)
    \<longrightarrow> snd (get_repl_context later q (clear_repl_context now c mgr)) = Map.empty)
   \<and> (session_or_default (GetREPLContextParams.session_id q) \<noteq>
      session_or_default (ClearREPLContextParams.session_id c)
    \<longrightarrow> clear_repl_context now c mgr (session_or_default (GetREPLContextParams.session_id q)) =
          mgr (session_or_default (GetREPLContextParams.session_id q))
      \<and> snd (get_repl_context later q (clear_repl_context now c mgr)) =
          snd (get_repl_context later q mgr))"
  by (simp add: get_repl_context_def set_repl_context_def clear_repl_context_def
      set_then_get clear_then_get clear_other_session clear_other_context)

theorem context_set_get_clear_witness:
  "(let q = \<lparr>GetREPLContextParams.session_id = Some ''a''\<rparr>;
        p = \<lparr>key = ''x'', value_json = ''5'', SetREPLContextParams.session_id = Some ''a''\<rparr>;
        same = \<lparr>ClearREPLContextParams.session_id = Some ''a''\<rparr>;
        other = \<lparr>ClearREPLContextParams.session_id = None\<rparr>;
        mgr = set_repl_context 1 p Map.empty
    in session_or_default (GetREPLContextParams.session_id q) =
         session_or_default (SetREPLContextParams.session_id p)
     \<and> snd (get_repl_context 2 q mgr) ''x'' = Some ''5''
     \<and> session_or_default (GetREPLContextParams.session_id q) =
         session_or_default (ClearREPLContextParams.session_id same)
     \<and> snd (get_repl_context 2 q (clear_repl_context 1 same mgr)) = Map.empty
     \<and> session_or_default (GetREPLContextParams.session_id q) \<noteq>
         session_or_default (ClearREPLContextParams.session_id other)
     \<and> snd (get_repl_context 2 q (clear_repl_context 1 other mgr)) ''x'' = Some ''5'')"
proof -
  have neq: "''a'' \<noteq> session_or_default None"
    by (simp add: session_or_default_def)
  show ?thesis
    using neq
      context_set_get_clear [where q = "\<lparr>GetREPLContextParams.session_id = Some ''a''\<rparr>"
        and p = "\<lparr>key = ''x'', value_json = ''5'', SetREPLContextParams.session_id = Some ''a''\<rparr>"
        and c = "\<lparr>ClearREPLContextParams.session_id = Some ''a''\<rparr>"
        and later = 2 and now = 1 and mgr = Map.empty]
      context_set_get_clear [where q = "\<lparr>GetREPLContextParams.session_id = Some ''a''\<rparr>"
        and p = "\<lparr>key = ''x'', value_json = ''5'', SetREPLContextParams.session_id = Some ''a''\<rparr>"
        and c = "\<lparr>ClearREPLContextParams.session_id = Some ''a''\<rparr>"
        and later = 2 and now = 1
        and mgr = "set_repl_context 1 \<lparr>key = ''x'', value_json = ''5'',
          SetREPLContextParams.session_id = Some ''a''\<rparr> Map.empty"]
      context_set_get_clear [where q = "\<lparr>GetREPLContextParams.session_id = Some ''a''\<rparr>"
        and p = "\<lparr>key = ''x'', value_json = ''5'', SetREPLContextParams.session_id = Some ''a''\<rparr>"
        and c = "\<lparr>ClearREPLContextParams.session_id = None\<rparr>"
        and later = 2 and now = 1
        and mgr = "set_repl_context 1 \<lparr>key = ''x'', value_json = ''5'',
          SetREPLContextParams.session_id = Some ''a''\<rparr> Map.empty"]
    by (simp add: Let_def session_or_default_def)
qed

subsection \<open>Termination of the dispatch loop\<close>

lemma step_invariant:
  "loop_invariant b ps \<Longrightarrow> loop_invariant b (step mdl reg b ps)"
  by (cases ps; cases "fst ps")
     (auto simp: loop_invariant_def step_def Let_def split: Phase.splits)

lemma run_loop_invariant:
  "loop_invariant b ps \<Longrightarrow>
     loop_invariant b (terminal (fst (run_loop mdl reg b ps)), snd (run_loop mdl reg b ps))"
proof (induction mdl reg b ps rule: run_loop.induct)
  case (1 mdl reg b t st)
  then show ?case by simp
next
  case (2 mdl reg b st)
  then show ?case using step_invariant [of b "(awaiting_model, st)" mdl reg] by simp
next
  case (3 mdl reg b calls st)
  then show ?case using step_invariant [of b "(awaiting_tools calls, st)" mdl reg] by simp
qed

lemma step_not_completed:
  assumes "\<forall>ms. tool_calls (mdl ms) \<noteq> []"
    and "fst ps \<noteq> terminal Completed"
  shows "fst (step mdl reg b ps) \<noteq> terminal Completed"
  using assms
  by (cases ps; cases "fst ps") (auto simp: step_def Let_def)

lemma run_loop_not_completed:
  assumes "\<forall>ms. tool_calls (mdl ms) \<noteq> []"
    and "fst ps \<noteq> terminal Completed"
  shows "fst (run_loop mdl reg b ps) \<noteq> Completed"
  using assms
proof (induction mdl reg b ps rule: run_loop.induct)
  case (1 mdl reg b t st)
  then show ?case by simp
next
  case (2 mdl reg b st)
  then show ?case
    using step_not_completed [of mdl "(awaiting_model, st)" reg b] by simp
next
  case (3 mdl reg b calls st)
  then show ?case
    using step_not_completed [of mdl "(awaiting_tools calls, st)" reg b] by simp
qed

lemma step_decreases:
  "(\<And>t. fst ps \<noteq> terminal t) \<Longrightarrow> loop_measure b (step mdl reg b ps) < loop_measure b ps"
  by (cases ps; cases "fst ps")
     (auto simp: loop_measure_def step_def Let_def)

lemma run_loop_steps:
  "\<exists>k\<le>loop_measure b ps.
     (step mdl reg b ^^ k) ps = (terminal (fst (run_loop mdl reg b ps)), snd (run_loop mdl reg b ps))"
proof (induction mdl reg b ps rule: run_loop.induct)
  case (1 mdl reg b t st)
  show ?case by (rule exI [of _ 0]) simp
next
  case (2 mdl reg b st)
  then obtain k where k: "k \<le> loop_measure b (step mdl reg b (awaiting_model, st))"
    and r: "(step mdl reg b ^^ k) (step mdl reg b (awaiting_model, st)) =
      (terminal (fst (run_loop mdl reg b (step mdl reg b (awaiting_model, st)))),
       snd (run_loop mdl reg b (step mdl reg b (awaiting_model, st))))"
    by blast
  have "loop_measure b (step mdl reg b (awaiting_model, st)) < loop_measure b (awaiting_model, st)"
    by (rule step_decreases) simp
  with k have "Suc k \<le> loop_measure b (awaiting_model, st)" by simp
  moreover have "(step mdl reg b ^^ Suc k) (awaiting_model, st) =
      (terminal (fst (run_loop mdl reg b (awaiting_model, st))),
       snd (run_loop mdl reg b (awaiting_model, st)))"
    using r by (simp add: funpow_swap1)
  ultimately show ?case by blast
next
  case (3 mdl reg b calls st)
  then obtain k where k: "k \<le> loop_measure b (step mdl reg b (awaiting_tools calls, st))"
    and r: "(step mdl reg b ^^ k) (step mdl reg b (awaiting_tools calls, st)) =
      (terminal (fst (run_loop mdl reg b (step mdl reg b (awaiting_tools calls, st)))),
       snd (run_loop mdl reg b (step mdl reg b (awaiting_tools calls, st))))"
    by blast
  have "loop_measure b (step mdl reg b (awaiting_tools calls, st))
      < loop_measure b (awaiting_tools calls, st)"
    by (rule step_decreases) simp
  with k have "Suc k \<le> loop_measure b (awaiting_tools calls, st)" by simp
  moreover have "(step mdl reg b ^^ Suc k) (awaiting_tools calls, st) =
      (terminal (fst (run_loop mdl reg b (awaiting_tools calls, st))),
       snd (run_loop mdl reg b (awaiting_tools calls, st)))"
    using r by (simp add: funpow_swap1)
  ultimately show ?case by blast
qed

lemma initial_measure:
  "loop_measure b (awaiting_model, initial_state task) = 2 * max_depth b + 2"
  by (simp add: loop_measure_def initial_state_def)

text \<open>
  Claim C8. For every model, registry, budget and task the loop terminates: it reaches
  its terminal state within \<open>2 * max_depth + 2\<close> transitions, after at most \<open>max_depth\<close>
  tool-dispatch round trips. The checks
  come before the step: the depth never exceeds \<open>max_depth\<close>, the tool calls dispatched
  never exceed the tool-call budget, and the model is called at most once more than the
  tools are dispatched. A forced termination is reported with the flag set, the answer
  source \<open>forced\<close> and the best answer available; a model that requests tools on every
  response always ends forced.
\<close>

theorem max_depth_bounds_run:
  "(let fin = run_loop mdl reg b (awaiting_model, initial_state task);
        r = rlm_agent_run mdl reg b task rid duration
    in (\<exists>k\<le>2 * max_depth b + 2.
          (step mdl reg b ^^ k) (awaiting_model, initial_state task) =
            (terminal (fst fin), snd fin))
     \<and> iterations r \<le> max_depth b
     \<and> iterations r = round_trips (snd fin)
     \<and> depth (snd fin) \<le> max_depth b
     \<and> model_calls (snd fin) \<le> iterations r + 1
     \<and> tool_calls_used (snd fin) \<le> tool_call_budget b
     \<and> (forced_termination r \<longrightarrow>
          answer_source r = ''forced'' \<and> \<not> AgentResult.success r
          \<and> answer r = (case written_variable (snd fin) of
                          Some v \<Rightarrow> v | None \<Rightarrow> last_response (snd fin)))
     \<and> ((\<forall>ms. tool_calls (mdl ms) \<noteq> []) \<longrightarrow> forced_termination r))"
proof -
  define fin where "fin = run_loop mdl reg b (awaiting_model, initial_state task)"
  have "loop_invariant b (awaiting_model, initial_state task)"
    by (simp add: loop_invariant_def initial_state_def)
  then have "loop_invariant b (terminal (fst fin), snd fin)"
    unfolding fin_def by (rule run_loop_invariant)
  then have inv: "round_trips (snd fin) = depth (snd fin)" "depth (snd fin) \<le> max_depth b"
    "tool_calls_used (snd fin) \<le> tool_call_budget b"
    "model_calls (snd fin) \<le> depth (snd fin) + 1"
    by (simp_all add: loop_invariant_def)
  have "fst fin \<noteq> Completed" if "\<forall>ms. tool_calls (mdl ms) \<noteq> []"
    unfolding fin_def using that by (rule run_loop_not_completed) simp
  then have forced: "(\<forall>ms. tool_calls (mdl ms) \<noteq> []) \<longrightarrow> fst fin \<noteq> Completed"
    by blast
  have steps: "\<exists>k\<le>2 * max_depth b + 2.
      (step mdl reg b ^^ k) (awaiting_model, initial_state task) = (terminal (fst fin), snd fin)"
    using run_loop_steps [of b "(awaiting_model, initial_state task)" mdl reg]
    by (simp only: initial_measure fin_def)
  have r: "rlm_agent_run mdl reg b task rid duration = agent_result rid duration (fst fin, snd fin)"
    by (simp add: rlm_agent_run_def fin_def)
  have rest: "iterations (agent_result rid duration (fst fin, snd fin)) \<le> max_depth b
     \<and> iterations (agent_result rid duration (fst fin, snd fin)) = round_trips (snd fin)
     \<and> depth (snd fin) \<le> max_depth b
     \<and> model_calls (snd fin) \<le> iterations (agent_result rid duration (fst fin, snd fin)) + 1
     \<and> tool_calls_used (snd fin) \<le> tool_call_budget b
     \<and> (forced_termination (agent_result rid duration (fst fin, snd fin)) \<longrightarrow>
          answer_source (agent_result rid duration (fst fin, snd fin)) = ''forced''
          \<and> \<not> AgentResult.success (agent_result rid duration (fst fin, snd fin))
          \<and> answer (agent_result rid duration (fst fin, snd fin)) =
              (case written_variable (snd fin) of
                 Some v \<Rightarrow> v | None \<Rightarrow> last_response (snd fin)))
     \<and> ((\<forall>ms. tool_calls (mdl ms) \<noteq> []) \<longrightarrow>
          forced_termination (agent_result rid duration (fst fin, snd fin)))"
    using inv forced
    by (cases "fst fin") (simp_all add: agent_result_def)
  show ?thesis
    unfolding Let_def r fin_def [symmetric]
    using steps rest by (rule conjI)
qed

theorem max_depth_bounds_run_witness:
  "(let mdl = (\<lambda>ms. \<lparr>response_text = ''thinking'',
                tool_calls = [\<lparr>call_id = ''c'', tool_name = ''t'', arguments = ''{}''\<rparr>],
                response_tokens = 1, response_cost = 1\<rparr>);
        r = rlm_agent_run mdl Map.empty
              \<lparr>max_depth = 2, token_budget = 100, tool_call_budget = 100, cost_limit = 100\<rparr>
              ''task'' ''run-1'' 7
    in (\<forall>ms. tool_calls (mdl ms) \<noteq> [])
     \<and> forced_termination r
     \<and> answer_source r = ''forced''
     \<and> iterations r \<le> 2)"
  using max_depth_bounds_run [where mdl = "\<lambda>ms. \<lparr>response_text = ''thinking'',
                tool_calls = [\<lparr>call_id = ''c'', tool_name = ''t'', arguments = ''{}''\<rparr>],
                response_tokens = 1, response_cost = 1\<rparr>"
        and reg = Map.empty
        and b = "\<lparr>max_depth = 2, token_budget = 100, tool_call_budget = 100, cost_limit = 100\<rparr>"
        and task = "''task''" and rid = "''run-1''" and duration = 7]
  by (simp add: Let_def)

end
